theory Spec2Isabelle
  imports Complex_Main "HOL-Library.Word"
begin

section \<open>Data model of ossimShorelineUtil\<close>

text \<open>
  The utility is a C++ class derived from ossimChipProcUtil. Its members become the fields
  of a record; every member function takes the object and returns the updated object.
  A C++ \<open>double\<close> is modelled as an exact \<open>real\<close>: rounding is outside the model, and
  a coordinate that can be NaN is a \<open>real option\<close> with \<open>None\<close> for NaN.
  An \<open>ossim_uint8\<close> is an \<open>8 word\<close>.
\<close>

text \<open>
  Modelled from the spec: the enum \<open>AlgorithmId\<close> is declared in ossimShorelineUtil.h, which is
  not among the sources; the spec gives the algorithm as one of NDWI and AWEI.
\<close>

datatype AlgorithmId = NDWI | AWEI

text \<open>
  Every \<open>throw ossimException(...)\<close> of the source is one constructor, named after the error
  kinds of the specification: the bad keyword value of lines 164 and 182 (with the keyword),
  the NaNs of line 239, the unsupported sensor of line 247 (with the sensor), the missing
  inputs of line 333 (with the expected and the found number), and whatever the base class
  ossimChipProcUtil throws.
\<close>

datatype ossimException =
    InvalidConfiguration string
  | InvalidAOI
  | UnsupportedConfiguration string
  | InsufficientInputs nat nat
  | BaseClassException string

datatype ossimScalarType = OSSIM_SCALAR_UNKNOWN | OSSIM_UINT8 | OSSIM_FLOAT

type_synonym imgLayer = nat

text \<open>
  The keyword list \<open>remapper_kwl\<close> of initProcessingChain: the fixed keys and the
  numbered entries \<open>entry<i>.in\<close>, \<open>entry<i>.out\<close> in the order of their numbers. The
  \<open>in\<close> values are doubles and the \<open>out\<close> values the configured byte codes (both pass
  through a decimal string in the source).
\<close>

record remapperKwl =
  kw_type :: string
  kw_enabled :: string
  kw_mode :: string
  kw_scalar_type :: string
  kw_entries :: "(real \<times> 8 word) list"

text \<open>The filters that initProcessingChain and initLandsat8 put on the chain.\<close>

datatype stage =
    EquationCombiner "imgLayer list" ossimScalarType string
  | BandLutFilter remapperKwl
  | ImageGaussianFilter real
  | EdgeFilter string

text \<open>
  Modelled from the spec: ossimGrect and ossimIrect are classes of the library that are not
  among the sources. The spec asks that the ground and the view
  rectangle have no undefined (NaN) bound; an integer bound is undefined when it is the
  sentinel \<open>OSSIM_INT_NAN\<close>.
\<close>

record ossimGrect =
  ul_lat :: "real option"
  ul_lon :: "real option"
  lr_lat :: "real option"
  lr_lon :: "real option"

record ossimIrect =
  ul_x :: int
  ul_y :: int
  lr_x :: int
  lr_y :: int

definition OSSIM_INT_NAN :: int where
  "OSSIM_INT_NAN = - (2 ^ 31)"

definition grect_hasNans :: "ossimGrect \<Rightarrow> bool" where
  "grect_hasNans r \<longleftrightarrow> ul_lat r = None \<or> ul_lon r = None \<or> lr_lat r = None \<or> lr_lon r = None"

definition irect_hasNans :: "ossimIrect \<Rightarrow> bool" where
  "irect_hasNans r \<longleftrightarrow>
     ul_x r = OSSIM_INT_NAN \<or> ul_y r = OSSIM_INT_NAN \<or> lr_x r = OSSIM_INT_NAN \<or> lr_y r = OSSIM_INT_NAN"

type_synonym ossimKeywordlist = "string \<rightharpoonup> string"

text \<open>The members of the base class that the utility reads and writes.\<close>

record ossimChipProcUtil =
  m_kwl :: ossimKeywordlist
  m_imgLayers :: "imgLayer list"
  m_procChain :: "stage list"
  m_aoiGroundRect :: ossimGrect
  m_aoiViewRect :: ossimIrect
  m_productFilename :: string

record ossimShorelineUtil = ossimChipProcUtil +
  m_waterValue :: "8 word"
  m_marginalValue :: "8 word"
  m_landValue :: "8 word"
  m_sensor :: string
  m_threshold :: real
  m_tolerance :: real
  m_algorithm :: AlgorithmId
  m_skipThreshold :: bool
  m_smoothing :: real
  m_doEdgeDetect :: bool
  m_vectorFilename :: string

text \<open>The constructor (lines 42 to 54): the member initialisers on top of a constructed base.\<close>

definition new_ossimShorelineUtil :: "ossimChipProcUtil \<Rightarrow> ossimShorelineUtil" where
  "new_ossimShorelineUtil b =
     \<lparr> m_kwl = m_kwl b, m_imgLayers = m_imgLayers b, m_procChain = m_procChain b,
       m_aoiGroundRect = m_aoiGroundRect b, m_aoiViewRect = m_aoiViewRect b,
       m_productFilename = m_productFilename b,
       m_waterValue = 255,
       m_marginalValue = 128,
       m_landValue = 0,
       m_sensor = ''ls8'',
       m_threshold = 55 / 100,
       m_tolerance = 1 / 100,
       m_algorithm = NDWI,
       m_skipThreshold = False,
       m_smoothing = 2 / 10,
       m_doEdgeDetect = False,
       m_vectorFilename = '''' \<rparr>"

section \<open>Building the processing chain\<close>

text \<open>
  \<open>m_procChain->add(f)\<close> connects the filter \<open>f\<close> to the output of the chain built so far.
  The list holds the filters in the order the pixels pass through them, so \<open>add\<close> appends.
\<close>

definition procChain_add :: "stage \<Rightarrow> ossimShorelineUtil \<Rightarrow> ossimShorelineUtil" where
  "procChain_add f s = s\<lparr>m_procChain := m_procChain s @ [f]\<rparr>"

text \<open>
  initLandsat8 (lines 311 to 347). The \<open>default\<close> branch of the switch is not reached:
  the algorithm is one of the two values.
\<close>

definition initLandsat8 :: "ossimShorelineUtil \<Rightarrow> ossimException + ossimShorelineUtil" where
  "initLandsat8 s =
     (let (reqdNumInputs, equationSpec) =
            (case m_algorithm s of
               NDWI \<Rightarrow> (2, ''in[0]/(in[0]+in[1])'')
             | AWEI \<Rightarrow> (4, ''4*(in[0]+in[1]) - 0.25*in[2] - 2.75*in[3]''))
      in if length (m_imgLayers s) < reqdNumInputs
         then Inl (InsufficientInputs reqdNumInputs (length (m_imgLayers s)))
         else
           let connectable_list = map (\<lambda>i. m_imgLayers s ! i) [0 ..< reqdNumInputs]
           in Inr (procChain_add (EquationCombiner connectable_list OSSIM_FLOAT equationSpec) s))"

text \<open>The equation that initLandsat8 sets for each algorithm, to state what it builds.\<close>

definition equationSpec_of :: "AlgorithmId \<Rightarrow> string" where
  "equationSpec_of a =
     (case a of
        NDWI \<Rightarrow> ''in[0]/(in[0]+in[1])''
      | AWEI \<Rightarrow> ''4*(in[0]+in[1]) - 0.25*in[2] - 2.75*in[3]'')"

text \<open>\<open>FLT_EPSILON\<close> of the C header \<open>cfloat\<close>: the gap between 1 and the next \<open>float\<close>.\<close>

definition FLT_EPSILON :: real where
  "FLT_EPSILON = 1 / 2 ^ 23"

text \<open>The keyword list of the threshold filter (lines 254 to 288).\<close>

definition remapper_kwl :: "ossimShorelineUtil \<Rightarrow> remapperKwl" where
  "remapper_kwl s =
     (let del = FLT_EPSILON;
          landValue = m_landValue s;
          waterValue = m_waterValue s;
          marginalValue = m_marginalValue s;
          thresholdValueLo1 = m_threshold s - m_tolerance s;
          thresholdValueLo2 = m_threshold s - m_tolerance s + del;
          thresholdValueHi1 = m_threshold s + m_tolerance s;
          thresholdValueHi2 = m_threshold s + m_tolerance s + del
      in \<lparr> kw_type = ''ossimBandLutFilter'',
           kw_enabled = ''1'',
           kw_mode = ''interpolated'',
           kw_scalar_type = ''U8'',
           kw_entries =
             [(0, landValue), (thresholdValueLo1, landValue)] @
             (if m_tolerance s = 0
              then [(thresholdValueLo2, waterValue), (1, waterValue)]
              else [(thresholdValueLo2, marginalValue), (thresholdValueHi1, marginalValue),
                    (thresholdValueHi2, waterValue), (1, waterValue)]) \<rparr>)"

text \<open>initProcessingChain (lines 233 to 309).\<close>

definition initProcessingChain :: "ossimShorelineUtil \<Rightarrow> ossimException + ossimShorelineUtil" where
  "initProcessingChain s =
     (if grect_hasNans (m_aoiGroundRect s) \<or> irect_hasNans (m_aoiViewRect s) then Inl InvalidAOI
      else if m_sensor s \<noteq> ''ls8'' then Inl (UnsupportedConfiguration (m_sensor s))
      else case initLandsat8 s of
        Inl e \<Rightarrow> Inl e
      | Inr s1 \<Rightarrow>
          let s2 = (if \<not> m_skipThreshold s1
                    then procChain_add (BandLutFilter (remapper_kwl s1)) s1 else s1);
              s3 = (if m_smoothing s2 > 0
                    then procChain_add (ImageGaussianFilter (m_smoothing s2)) s2 else s2);
              s4 = (if m_doEdgeDetect s3
                    then procChain_add (EdgeFilter ''roberts'') s3 else s3)
          in Inr s4)"

text \<open>The required number of band sources, in the words of the specification.\<close>

definition requiredBandCount :: "AlgorithmId \<Rightarrow> nat" where
  "requiredBandCount a = (case a of NDWI \<Rightarrow> 2 | AWEI \<Rightarrow> 4)"

section \<open>The threshold filter's lookup\<close>

text \<open>
  Modelled from the spec: ossimBandLutFilter is a class of the library that is not among the
  sources. The spec describes the classifier as a lookup table built once from the
  configuration, with linear interpolation between the listed control points. A value is
  looked up between the first two consecutive control points that enclose it; a value that
  no pair encloses has no output.

  The pixel is a real number and the result is the value before its cast to the U8 output
  scalar. The pixels of the raster are 32-bit floats (line 343), which are among the reals:
  what is proved of every real pixel holds of every pixel of the raster. The examples that
  show a failure use a pixel that is a float and reach an output that is a whole number,
  which the cast leaves as it is.
\<close>

fun interpolate :: "(real \<times> real) list \<Rightarrow> real \<Rightarrow> real option" where
  "interpolate [] v = None"
| "interpolate [(x, y)] v = (if v = x then Some y else None)"
| "interpolate ((x0, y0) # (x1, y1) # es) v =
     (if x0 \<le> v \<and> v \<le> x1
      then (if x1 = x0 then Some y0 else Some (y0 + (v - x0) * (y1 - y0) / (x1 - x0)))
      else interpolate ((x1, y1) # es) v)"



section \<open>The equation combiner's index\<close>

text \<open>
  Modelled from the spec: ossimEquationCombiner is a class of the library that is not among
  the sources. The spec gives the index as an algebraic formula of the band values of a
  pixel; the equation string that initLandsat8 hands to the combiner is read here with the
  usual precedence of \<open>*\<close> and \<open>/\<close> over \<open>+\<close> and \<open>-\<close>, left to right, \<open>in[i]\<close>
  being the value of input \<open>i\<close>. A division by zero has no finite value: \<open>None\<close>.
\<close>

datatype binop = Plus | Minus | Times | Over

datatype expr = Num real | Input nat | Bin binop expr expr

datatype token = TNum real | TIn nat | TOp binop | TOpen | TClose

datatype opitem = Op binop | Paren

definition is_digit :: "char \<Rightarrow> bool" where
  "is_digit c \<longleftrightarrow> c \<in> set ''0123456789''"

definition digit_val :: "char \<Rightarrow> nat" where
  "digit_val c = of_char c - 48"

definition digits_val :: "string \<Rightarrow> nat" where
  "digits_val ds = foldl (\<lambda>n c. 10 * n + digit_val c) 0 ds"

text \<open>A decimal literal: digits, then possibly a point and more digits.\<close>

definition decimal :: "string \<Rightarrow> real option" where
  "decimal w =
     (let ip = takeWhile (\<lambda>c. c \<noteq> CHR ''.'') w;
          fp = drop 1 (dropWhile (\<lambda>c. c \<noteq> CHR ''.'') w)
      in if ip \<noteq> [] \<and> list_all is_digit ip \<and> list_all is_digit fp
         then Some (real (digits_val ip) + real (digits_val fp) / 10 ^ length fp)
         else None)"

text \<open>A word of the equation is a literal or \<open>in[i\<close>, closed by the bracket that follows.\<close>

definition word_token :: "string \<Rightarrow> token list option" where
  "word_token w =
     (if w = [] then Some []
      else case decimal w of Some x \<Rightarrow> Some [TNum x] | None \<Rightarrow> None)"

definition input_token :: "string \<Rightarrow> token list option" where
  "input_token w =
     (if take 3 w = ''in['' \<and> drop 3 w \<noteq> [] \<and> list_all is_digit (drop 3 w)
      then Some [TIn (digits_val (drop 3 w))] else None)"

definition symbol_token :: "char \<Rightarrow> token list option" where
  "symbol_token c =
     (if c = CHR ''+'' then Some [TOp Plus]
      else if c = CHR ''-'' then Some [TOp Minus]
      else if c = CHR ''*'' then Some [TOp Times]
      else if c = CHR ''/'' then Some [TOp Over]
      else if c = CHR ''('' then Some [TOpen]
      else if c = CHR '')'' then Some [TClose]
      else if c = CHR '' '' then Some []
      else None)"

definition join :: "'a list option \<Rightarrow> 'a list option \<Rightarrow> 'a list option" where
  "join a b = (case (a, b) of (Some x, Some y) \<Rightarrow> Some (x @ y) | _ \<Rightarrow> None)"

fun tokenize :: "string \<Rightarrow> string \<Rightarrow> token list option" where
  "tokenize w [] = word_token w"
| "tokenize w (c # cs) =
     (if c = CHR '']'' then join (input_token w) (tokenize [] cs)
      else case symbol_token c of
        Some ts \<Rightarrow> join (word_token w) (join (Some ts) (tokenize [] cs))
      | None \<Rightarrow> tokenize (w @ [c]) cs)"

definition prec :: "binop \<Rightarrow> nat" where
  "prec b = (case b of Plus \<Rightarrow> 1 | Minus \<Rightarrow> 1 | Times \<Rightarrow> 2 | Over \<Rightarrow> 2)"

fun apply_op :: "binop \<Rightarrow> expr list \<Rightarrow> expr list option" where
  "apply_op b (r # l # out) = Some (Bin b l r # out)"
| "apply_op b out = None"

text \<open>The operators waiting on the stack that bind at least as tightly are applied first.\<close>

fun reduce :: "nat \<Rightarrow> opitem list \<Rightarrow> expr list \<Rightarrow> (opitem list \<times> expr list) option" where
  "reduce p (Op b # ops) out =
     (if p \<le> prec b
      then (case apply_op b out of None \<Rightarrow> None | Some out' \<Rightarrow> reduce p ops out')
      else Some (Op b # ops, out))"
| "reduce p ops out = Some (ops, out)"

fun close_paren :: "opitem list \<Rightarrow> expr list \<Rightarrow> (opitem list \<times> expr list) option" where
  "close_paren [] out = None"
| "close_paren (Paren # ops) out = Some (ops, out)"
| "close_paren (Op b # ops) out =
     (case apply_op b out of None \<Rightarrow> None | Some out' \<Rightarrow> close_paren ops out')"

fun finish :: "opitem list \<Rightarrow> expr list \<Rightarrow> expr option" where
  "finish [] out = (case out of [e] \<Rightarrow> Some e | _ \<Rightarrow> None)"
| "finish (Paren # ops) out = None"
| "finish (Op b # ops) out =
     (case apply_op b out of None \<Rightarrow> None | Some out' \<Rightarrow> finish ops out')"

fun shunt :: "token list \<Rightarrow> opitem list \<Rightarrow> expr list \<Rightarrow> expr option" where
  "shunt [] ops out = finish ops out"
| "shunt (TNum x # ts) ops out = shunt ts ops (Num x # out)"
| "shunt (TIn i # ts) ops out = shunt ts ops (Input i # out)"
| "shunt (TOp b # ts) ops out =
     (case reduce (prec b) ops out of
        None \<Rightarrow> None
      | Some (ops', out') \<Rightarrow> shunt ts (Op b # ops') out')"
| "shunt (TOpen # ts) ops out = shunt ts (Paren # ops) out"
| "shunt (TClose # ts) ops out =
     (case close_paren ops out of
        None \<Rightarrow> None
      | Some (ops', out') \<Rightarrow> shunt ts ops' out')"

definition parse_equation :: "string \<Rightarrow> expr option" where
  "parse_equation eq = (case tokenize [] eq of None \<Rightarrow> None | Some ts \<Rightarrow> shunt ts [] [])"

fun eval :: "expr \<Rightarrow> real list \<Rightarrow> real option" where
  "eval (Num x) ins = Some x"
| "eval (Input i) ins = (if i < length ins then Some (ins ! i) else None)"
| "eval (Bin b l r) ins =
     (case (eval l ins, eval r ins) of
        (Some x, Some y) \<Rightarrow>
          (case b of
             Plus \<Rightarrow> Some (x + y)
           | Minus \<Rightarrow> Some (x - y)
           | Times \<Rightarrow> Some (x * y)
           | Over \<Rightarrow> (if y = 0 then None else Some (x / y)))
      | _ \<Rightarrow> None)"

text \<open>
  The index that a combiner stage gives a pixel whose band values, one for each connected
  input, are \<open>bands\<close>.
\<close>

fun combiner_inputs :: "stage \<Rightarrow> imgLayer list" where
  "combiner_inputs (EquationCombiner ins sc eq) = ins"
| "combiner_inputs f = []"

fun combiner_index :: "stage \<Rightarrow> real list \<Rightarrow> real option" where
  "combiner_index (EquationCombiner ins sc eq) bands =
     (if length bands = length ins
      then (case parse_equation eq of None \<Rightarrow> None | Some e \<Rightarrow> eval e bands)
      else None)"
| "combiner_index f bands = None"

section \<open>Reading the configuration\<close>

definition COLOR_CODING_KW :: string where "COLOR_CODING_KW = ''color_coding''"
definition SMOOTHING_KW :: string where "SMOOTHING_KW = ''smoothing''"
definition THRESHOLD_KW :: string where "THRESHOLD_KW = ''threshold''"
definition TOLERANCE_KW :: string where "TOLERANCE_KW = ''tolerance''"
definition ALGORITHM_KW :: string where "ALGORITHM_KW = ''algorithm''"
definition DO_EDGE_DETECT_KW :: string where "DO_EDGE_DETECT_KW = ''do_edge_detect''"
definition DUMMY_OUTPUT_FILENAME :: string where "DUMMY_OUTPUT_FILENAME = ''@@NEVER_USE_THIS@@''"
definition TEMP_RASTER_PRODUCT_FILENAME :: string where
  "TEMP_RASTER_PRODUCT_FILENAME = ''temp_shoreline.tif''"

text \<open>
  A vectorization plugin, as the utility uses it: the keyword list it is initialised with
  gives the result of its \<open>execute()\<close>.
\<close>

type_synonym ossimUtility = "ossimKeywordlist \<Rightarrow> bool"

text \<open>
  What the utility calls and the sources do not hold is a parameter of the model: the
  keyword names of ossimKeywordNames, the conversions of ossimString and ossimFilename,
  \<open>initialize\<close> and \<open>execute\<close> of the base class (they may throw; \<open>execute\<close> returns its
  status), and the lookup of a plugin in the utility registry (\<open>None\<close> for an invalid
  pointer).
\<close>

record ossimLib =
  SENSOR_ID_KW :: string
  OUTPUT_FILE_KW :: string
  IMAGE_FILE_KW :: string
  toDouble :: "string \<Rightarrow> real"
  toUInt8 :: "string \<Rightarrow> 8 word"
  toBool :: "string \<Rightarrow> bool"
  split :: "string \<Rightarrow> string \<Rightarrow> string list"
  appendTimestamp :: "string \<Rightarrow> string"
  setExtension :: "string \<Rightarrow> string \<Rightarrow> string"
  chipProc_initialize :: "ossimKeywordlist \<Rightarrow> ossimShorelineUtil \<Rightarrow> ossimException + ossimShorelineUtil"
  chipProc_execute :: "ossimShorelineUtil \<Rightarrow> ossimException + bool \<times> ossimShorelineUtil"
  createUtility :: "string \<Rightarrow> ossimUtility option"

text \<open>\<open>findKey\<close> and \<open>find\<close> of a keyword list give the empty string for a missing key.\<close>

definition findKey :: "ossimKeywordlist \<Rightarrow> string \<Rightarrow> string" where
  "findKey kwl k = (case kwl k of None \<Rightarrow> '''' | Some v \<Rightarrow> v)"

text \<open>
  The argument of \<open>initialize(const ossimKeywordlist&)\<close> is a reference: the member
  \<open>m_kwl\<close> itself, or another keyword list.
\<close>

datatype kwlRef = Member | Other ossimKeywordlist

text \<open>Lines 155 to 168: the algorithm.\<close>

definition init_algorithm :: "ossimShorelineUtil \<Rightarrow> ossimException + ossimShorelineUtil" where
  "init_algorithm s =
     (let value = findKey (m_kwl s) ALGORITHM_KW
      in if value \<noteq> ''''
         then (if value = ''ndwi'' then Inr (s\<lparr>m_algorithm := NDWI\<rparr>)
               else if value = ''awei'' then Inr (s\<lparr>m_algorithm := AWEI\<rparr>)
               else Inl (InvalidConfiguration ALGORITHM_KW))
         else Inr s)"

text \<open>Lines 170 to 186: the colour coding.\<close>

definition init_color_coding :: "ossimLib \<Rightarrow> ossimShorelineUtil \<Rightarrow> ossimException + ossimShorelineUtil" where
  "init_color_coding lib s =
     (let value = findKey (m_kwl s) COLOR_CODING_KW
      in if value \<noteq> ''''
         then (let values = split lib '' '' value
               in if length values = 3
                  then Inr (s\<lparr>m_waterValue := toUInt8 lib (values ! 0),
                              m_marginalValue := toUInt8 lib (values ! 1),
                              m_landValue := toUInt8 lib (values ! 2)\<rparr>)
                  else Inl (InvalidConfiguration COLOR_CODING_KW))
         else Inr s)"

text \<open>Lines 188 to 210: sensor, edge detection, smoothing, threshold and tolerance.\<close>

definition init_settings :: "ossimLib \<Rightarrow> ossimShorelineUtil \<Rightarrow> ossimShorelineUtil" where
  "init_settings lib s =
     (let sensor = findKey (m_kwl s) (SENSOR_ID_KW lib);
          s1 = (if sensor \<noteq> '''' then s\<lparr>m_sensor := sensor\<rparr> else s);
          s2 = (case m_kwl s1 DO_EDGE_DETECT_KW of
                  None \<Rightarrow> s1
                | Some b \<Rightarrow> s1\<lparr>m_doEdgeDetect := toBool lib b\<rparr>);
          smoothing = findKey (m_kwl s2) SMOOTHING_KW;
          s3 = (if smoothing \<noteq> '''' then s2\<lparr>m_smoothing := toDouble lib smoothing\<rparr> else s2);
          threshold = findKey (m_kwl s3) THRESHOLD_KW;
          s4 = (if threshold \<noteq> ''''
                then (if threshold = ''X'' then s3\<lparr>m_skipThreshold := True\<rparr>
                      else s3\<lparr>m_threshold := toDouble lib threshold\<rparr>)
                else s3);
          tolerance = findKey (m_kwl s4) TOLERANCE_KW;
          s5 = (if tolerance \<noteq> '''' then s4\<lparr>m_tolerance := toDouble lib tolerance\<rparr> else s4)
      in s5)"

text \<open>Lines 212 to 228: the output file name is the vector's, the raster product gets its own.\<close>

definition init_filenames :: "ossimLib \<Rightarrow> ossimShorelineUtil \<Rightarrow> ossimShorelineUtil" where
  "init_filenames lib s =
     (if \<not> m_doEdgeDetect s
      then (let s1 = s\<lparr>m_vectorFilename := findKey (m_kwl s) (OUTPUT_FILE_KW lib)\<rparr>;
                s2 = (if m_vectorFilename s1 = DUMMY_OUTPUT_FILENAME
                      then s1\<lparr>m_vectorFilename := '''',
                              m_productFilename := appendTimestamp lib TEMP_RASTER_PRODUCT_FILENAME\<rparr>
                      else s1\<lparr>m_productFilename := setExtension lib (m_vectorFilename s1) ''tif''\<rparr>)
            in s2\<lparr>m_kwl := (m_kwl s2)(OUTPUT_FILE_KW lib \<mapsto> m_productFilename s2)\<rparr>)
      else s)"

text \<open>\<open>initialize(const ossimKeywordlist&)\<close> (lines 142 to 231).\<close>

definition initialize :: "ossimLib \<Rightarrow> kwlRef \<Rightarrow> ossimShorelineUtil \<Rightarrow> ossimException + ossimShorelineUtil" where
  "initialize lib kwl s =
     (let s0 = (case kwl of Member \<Rightarrow> s | Other k \<Rightarrow> s\<lparr>m_kwl := k\<rparr>)
      in case init_algorithm s0 of
        Inl e \<Rightarrow> Inl e
      | Inr s1 \<Rightarrow>
         (case init_color_coding lib s1 of
            Inl e \<Rightarrow> Inl e
          | Inr s2 \<Rightarrow>
              let s3 = init_filenames lib (init_settings lib s2)
              in chipProc_initialize lib (case kwl of Member \<Rightarrow> m_kwl s3 | Other k \<Rightarrow> k) s3))"

section \<open>The run\<close>

text \<open>What \<open>ossimNotify(ossimNotifyLevel_WARN)\<close> receives.\<close>

datatype notification = ossimNotifyLevel_WARN string

text \<open>
  execute (lines 366 to 398): the returned status and the notifications. The \<open>bool status\<close>
  of line 394 is a new variable of the inner block; the outer \<open>status\<close> is returned.
\<close>

definition execute :: "ossimLib \<Rightarrow> ossimShorelineUtil \<Rightarrow> ossimException + bool \<times> notification list" where
  "execute lib s =
     (case chipProc_execute lib s of
        Inl e \<Rightarrow> Inl e
      | Inr (status, s1) \<Rightarrow>
          if \<not> m_doEdgeDetect s1
          then (case createUtility lib ''potrace'' of
                  None \<Rightarrow>
                    Inr (False,
                         [ossimNotifyLevel_WARN
                            (''ossimShorelineUtil:379  Need the ossim-potrace plugin to perform '' @
                             ''vectorization. Only the thresholded image is available at <'' @
                             m_productFilename s1 @ ''>.'')])
                | Some potrace \<Rightarrow>
                    let potrace_kwl = [IMAGE_FILE_KW lib \<mapsto> m_productFilename s1,
                                       OUTPUT_FILE_KW lib \<mapsto> m_vectorFilename s1,
                                       ''mode'' \<mapsto> ''polygon''];
                        inner_status = potrace potrace_kwl
                    in Inr (status, []))
          else Inr (status, []))"

section \<open>A library instance for the examples\<close>

text \<open>A constructed base object for the examples: two or more layers, a defined area of interest.\<close>

definition example_base :: "imgLayer list \<Rightarrow> ossimChipProcUtil" where
  "example_base layers =
     \<lparr> m_kwl = Map.empty, m_imgLayers = layers, m_procChain = [],
       m_aoiGroundRect = \<lparr> ul_lat = Some 1, ul_lon = Some 0, lr_lat = Some 0, lr_lon = Some 1 \<rparr>,
       m_aoiViewRect = \<lparr> ul_x = 0, ul_y = 0, lr_x = 255, lr_y = 255 \<rparr>,
       m_productFilename = ''shoreline.tif'' \<rparr>"

fun split_any :: "string \<Rightarrow> string \<Rightarrow> string list" where
  "split_any seps [] = [[]]"
| "split_any seps (c # cs) =
     (if c \<in> set seps then [] # split_any seps cs
      else (case split_any seps cs of [] \<Rightarrow> [[c]] | w # ws \<Rightarrow> (c # w) # ws))"

definition example_toDouble :: "string \<Rightarrow> real" where
  "example_toDouble w =
     (case w of
        [] \<Rightarrow> 0
      | c # cs \<Rightarrow>
          if c = CHR ''-'' then (case decimal cs of None \<Rightarrow> 0 | Some x \<Rightarrow> - x)
          else (case decimal w of None \<Rightarrow> 0 | Some x \<Rightarrow> x))"

definition example_lib :: ossimLib where
  "example_lib =
     \<lparr> SENSOR_ID_KW = ''sensor_id'',
       OUTPUT_FILE_KW = ''output_file'',
       IMAGE_FILE_KW = ''image_file'',
       toDouble = example_toDouble,
       toUInt8 = (\<lambda>w. of_nat (digits_val w)),
       toBool = (\<lambda>w. w = ''true''),
       split = split_any,
       appendTimestamp = (\<lambda>f. f),
       setExtension = (\<lambda>f e. takeWhile (\<lambda>c. c \<noteq> CHR ''.'') f @ ''.'' @ e),
       chipProc_initialize = (\<lambda>k s. Inr s),
       chipProc_execute = (\<lambda>s. Inr (True, s)),
       createUtility = (\<lambda>n. None) \<rparr>"

section \<open>Objects for the examples\<close>

definition example_util :: ossimShorelineUtil where
  "example_util = new_ossimShorelineUtil (example_base [0, 1, 2, 3])"







definition example_awei :: ossimShorelineUtil where
  "example_awei = example_util\<lparr>m_algorithm := AWEI\<rparr>"

definition example_awei2 :: ossimShorelineUtil where
  "example_awei2 = (new_ossimShorelineUtil (example_base [0, 1]))\<lparr>m_algorithm := AWEI\<rparr>"

definition example_edge :: ossimShorelineUtil where
  "example_edge = example_util\<lparr>m_doEdgeDetect := True\<rparr>"

definition example_lib_potrace :: "bool \<Rightarrow> ossimLib" where
  "example_lib_potrace result = example_lib\<lparr>createUtility := (\<lambda>n. if n = ''potrace'' then Some (\<lambda>kwl. result) else None)\<rparr>"

definition example_kwl :: ossimKeywordlist where
  "example_kwl = [''threshold'' \<mapsto> ''1.5'', ''tolerance'' \<mapsto> ''-0.1'',
                  ''output_file'' \<mapsto> ''shore.json'']"

section \<open>Helper lemmas: the chain that is built\<close>

text \<open>
  The loop of lines 340 and 341 copies the first \<open>reqdNumInputs\<close> layers.
\<close>

lemma map_nth_upt_take:
  "n \<le> length xs \<Longrightarrow> map (\<lambda>i. xs ! i) [0 ..< n] = take n xs"
  by (intro nth_equalityI) simp_all

lemma initLandsat8_too_few:
  assumes "length (m_imgLayers s) < requiredBandCount (m_algorithm s)"
  shows "initLandsat8 s =
           Inl (InsufficientInputs (requiredBandCount (m_algorithm s)) (length (m_imgLayers s)))"
  using assms by (cases "m_algorithm s") (simp_all add: initLandsat8_def requiredBandCount_def)

lemma initLandsat8_enough:
  assumes "requiredBandCount (m_algorithm s) \<le> length (m_imgLayers s)"
  shows "initLandsat8 s =
           Inr (procChain_add
                  (EquationCombiner (take (requiredBandCount (m_algorithm s)) (m_imgLayers s)) OSSIM_FLOAT
                     (equationSpec_of (m_algorithm s))) s)"
  using assms
  by (cases "m_algorithm s")
     (simp_all add: initLandsat8_def requiredBandCount_def map_nth_upt_take equationSpec_of_def)

lemma initLandsat8_Inr:
  assumes "initLandsat8 s = Inr s1"
  shows "requiredBandCount (m_algorithm s) \<le> length (m_imgLayers s)"
  using assms initLandsat8_too_few [of s] by (cases "requiredBandCount (m_algorithm s) \<le> length (m_imgLayers s)") auto

lemma initProcessingChain_shape:
  assumes "initProcessingChain s = Inr s'"
  shows "m_procChain s' = m_procChain s @
           [EquationCombiner (take (requiredBandCount (m_algorithm s)) (m_imgLayers s)) OSSIM_FLOAT
              (equationSpec_of (m_algorithm s))] @
           (if \<not> m_skipThreshold s then [BandLutFilter (remapper_kwl s)] else []) @
           (if m_smoothing s > 0 then [ImageGaussianFilter (m_smoothing s)] else []) @
           (if m_doEdgeDetect s then [EdgeFilter ''roberts''] else [])"
proof -
  from assms obtain s1 where s1: "initLandsat8 s = Inr s1"
    by (auto simp: initProcessingChain_def split: if_splits sum.splits)
  have L: "initLandsat8 s = Inr (procChain_add
                  (EquationCombiner (take (requiredBandCount (m_algorithm s)) (m_imgLayers s)) OSSIM_FLOAT
                     (equationSpec_of (m_algorithm s))) s)"
    using initLandsat8_enough [OF initLandsat8_Inr [OF s1]] .
  have kw: "remapper_kwl (s\<lparr>m_procChain := c\<rparr>) = remapper_kwl s" for c
    by (simp add: remapper_kwl_def)
  show ?thesis
    using assms unfolding initProcessingChain_def L
    by (auto simp: Let_def procChain_add_def kw split: if_splits)
qed

lemmas example_defs = example_util_def new_ossimShorelineUtil_def example_base_def

lemma initProcessingChain_succeeds:
  assumes "\<not> grect_hasNans (m_aoiGroundRect s)" and "\<not> irect_hasNans (m_aoiViewRect s)"
    and "m_sensor s = ''ls8''"
    and "requiredBandCount (m_algorithm s) \<le> length (m_imgLayers s)"
  shows "initProcessingChain s = Inr (projr (initProcessingChain s))"
  using assms initLandsat8_enough [of s]
  by (simp add: initProcessingChain_def Let_def)

section \<open>Helper lemmas: the lookup table\<close>


lemma interpolate_flat:
  "x0 \<le> v \<Longrightarrow> v \<le> x1 \<Longrightarrow> interpolate ((x0, y) # (x1, y) # es) v = Some y"
  by simp

lemma interpolate_ramp:
  "x0 \<le> v \<Longrightarrow> v \<le> x1 \<Longrightarrow> x0 < x1 \<Longrightarrow>
   interpolate ((x0, y0) # (x1, y1) # es) v = Some (y0 + (v - x0) * (y1 - y0) / (x1 - x0))"
  by simp

lemma interpolate_ramp_end:
  "x0 < x1 \<Longrightarrow> interpolate ((x0, y0) # (x1, y1) # es) x1 = Some y1"
  by simp













section \<open>The threshold classifier\<close>







section \<open>A tolerance of zero\<close>




section \<open>Helper lemmas: the two equations\<close>

text \<open>
  The expressions that the two equation strings of initLandsat8 denote.
\<close>

lemma parse_ndwi:
  "parse_equation ''in[0]/(in[0]+in[1])'' = Some (Bin Over (Input 0) (Bin Plus (Input 0) (Input 1)))"
  by code_simp

lemma parse_awei:
  "parse_equation ''4*(in[0]+in[1]) - 0.25*in[2] - 2.75*in[3]'' =
     Some (Bin Minus
             (Bin Minus (Bin Times (Num 4) (Bin Plus (Input 0) (Input 1)))
                        (Bin Times (Num (1 / 4)) (Input 2)))
             (Bin Times (Num (11 / 4)) (Input 3)))"
  by code_simp

section \<open>The index evaluator\<close>

text \<open>
  Claim C2. initLandsat8 succeeds only with at least 2 layers for NDWI and 4 for AWEI.
  When it succeeds, the combiner it puts on the chain has exactly 2 inputs for NDWI and
  gives a pixel the index b0 / (b0 + b1) (no finite value when b0 + b1 = 0); for AWEI it
  has exactly 4 inputs and gives 4 * (b0 + b1) - 0.25 * b2 - 2.75 * b3.
\<close>

theorem C2_index_formulas:
  assumes "initLandsat8 s = Inr s'"
  shows "(m_algorithm s = NDWI \<longrightarrow>
            2 \<le> length (m_imgLayers s)
          \<and> length (combiner_inputs (last (m_procChain s'))) = 2
          \<and> combiner_index (last (m_procChain s')) [b0, b1] =
              (if b0 + b1 = 0 then None else Some (b0 / (b0 + b1))))
       \<and> (m_algorithm s = AWEI \<longrightarrow>
            4 \<le> length (m_imgLayers s)
          \<and> length (combiner_inputs (last (m_procChain s'))) = 4
          \<and> combiner_index (last (m_procChain s')) [b0, b1, b2, b3] =
              Some (4 * (b0 + b1) - 0.25 * b2 - 2.75 * b3))"
proof -
  have enough: "requiredBandCount (m_algorithm s) \<le> length (m_imgLayers s)"
    using assms by (rule initLandsat8_Inr)
  have s': "s' = procChain_add
                  (EquationCombiner (take (requiredBandCount (m_algorithm s)) (m_imgLayers s)) OSSIM_FLOAT
                     (equationSpec_of (m_algorithm s))) s"
    using initLandsat8_enough [OF enough] assms by simp
  show ?thesis
  proof (cases "m_algorithm s")
    case NDWI
    with enough show ?thesis
      by (simp add: s' procChain_add_def requiredBandCount_def equationSpec_of_def parse_ndwi)
  next
    case AWEI
    with enough show ?thesis
      by (simp add: s' procChain_add_def requiredBandCount_def equationSpec_of_def parse_awei)
  qed
qed

text \<open>
  NDWI on the bands 100, 100 gives 0.5; AWEI on the bands 1, 2, 4, 8 gives 12 - 1 - 22.
\<close>

theorem C2_index_formulas_witness:
  "initLandsat8 example_util = Inr (projr (initLandsat8 example_util))
   \<and> m_algorithm example_util = NDWI
   \<and> combiner_index (last (m_procChain (projr (initLandsat8 example_util)))) [100, 100] = Some (1 / 2)
   \<and> initLandsat8 example_awei = Inr (projr (initLandsat8 example_awei))
   \<and> m_algorithm example_awei = AWEI
   \<and> combiner_index (last (m_procChain (projr (initLandsat8 example_awei)))) [1, 2, 4, 8] = Some (- 11)"
proof -
  have n: "initLandsat8 example_util = Inr (projr (initLandsat8 example_util))"
    using initLandsat8_enough [of example_util]
    by (simp add: example_defs requiredBandCount_def)
  have a: "initLandsat8 example_awei = Inr (projr (initLandsat8 example_awei))"
    using initLandsat8_enough [of example_awei]
    by (simp add: example_awei_def example_defs requiredBandCount_def)
  show ?thesis
    using C2_index_formulas [OF n, of 100 100] C2_index_formulas [OF a, of 1 2 4 8] n a
    by (simp add: example_awei_def example_defs)
qed

section \<open>The number of band sources\<close>

text \<open>
  Claim C6. With fewer layers than the algorithm requires (2 for NDWI, 4 for AWEI),
  initLandsat8 throws the exception of line 333 and adds nothing to the chain, so building
  the chain fails: with that exception when the area of interest is defined and the sensor
  is ls8, with one of the earlier exceptions otherwise.
\<close>

theorem C6_insufficient_inputs:
  assumes "length (m_imgLayers s) < requiredBandCount (m_algorithm s)"
  shows "initLandsat8 s =
           Inl (InsufficientInputs (requiredBandCount (m_algorithm s)) (length (m_imgLayers s)))
       \<and> isl (initProcessingChain s)
       \<and> (\<not> grect_hasNans (m_aoiGroundRect s) \<and> \<not> irect_hasNans (m_aoiViewRect s) \<and> m_sensor s = ''ls8'' \<longrightarrow>
            initProcessingChain s =
              Inl (InsufficientInputs (requiredBandCount (m_algorithm s)) (length (m_imgLayers s))))"
  using initLandsat8_too_few [OF assms] by (simp add: initProcessingChain_def)

text \<open>
  AWEI with two layers.
\<close>

theorem C6_insufficient_inputs_witness:
  "length (m_imgLayers example_awei2) < requiredBandCount (m_algorithm example_awei2)
   \<and> initLandsat8 example_awei2 = Inl (InsufficientInputs 4 2)
   \<and> initProcessingChain example_awei2 = Inl (InsufficientInputs 4 2)"
proof -
  have few: "length (m_imgLayers example_awei2) < requiredBandCount (m_algorithm example_awei2)"
    by (simp add: example_awei2_def example_defs requiredBandCount_def)
  show ?thesis
    using C6_insufficient_inputs [OF few] few
    by (simp add: example_awei2_def example_defs requiredBandCount_def grect_hasNans_def
          irect_hasNans_def OSSIM_INT_NAN_def)
qed

text \<open>
  Claim C10. With more layers than the algorithm requires, initLandsat8 succeeds and
  connects exactly the first \<open>requiredBandCount\<close> layers to the combiner; building the chain
  succeeds (given a defined area of interest and the sensor ls8), with that combiner as
  the first stage added.
\<close>

theorem C10_extra_inputs_ignored:
  assumes "requiredBandCount (m_algorithm s) < length (m_imgLayers s)"
  shows "initLandsat8 s =
           Inr (procChain_add
                  (EquationCombiner (take (requiredBandCount (m_algorithm s)) (m_imgLayers s)) OSSIM_FLOAT
                     (equationSpec_of (m_algorithm s))) s)
       \<and> length (take (requiredBandCount (m_algorithm s)) (m_imgLayers s)) = requiredBandCount (m_algorithm s)
       \<and> (\<not> grect_hasNans (m_aoiGroundRect s) \<and> \<not> irect_hasNans (m_aoiViewRect s) \<and> m_sensor s = ''ls8'' \<longrightarrow>
            \<not> isl (initProcessingChain s)
          \<and> m_procChain (projr (initProcessingChain s)) ! length (m_procChain s) =
              EquationCombiner (take (requiredBandCount (m_algorithm s)) (m_imgLayers s)) OSSIM_FLOAT
                (equationSpec_of (m_algorithm s)))"
proof -
  have le: "requiredBandCount (m_algorithm s) \<le> length (m_imgLayers s)"
    using assms by simp
  have built: "initProcessingChain s = Inr (projr (initProcessingChain s))"
    if "\<not> grect_hasNans (m_aoiGroundRect s)" "\<not> irect_hasNans (m_aoiViewRect s)" "m_sensor s = ''ls8''"
    using that le by (rule initProcessingChain_succeeds)
  have "\<not> isl (initProcessingChain s)
          \<and> m_procChain (projr (initProcessingChain s)) ! length (m_procChain s) =
              EquationCombiner (take (requiredBandCount (m_algorithm s)) (m_imgLayers s)) OSSIM_FLOAT
                (equationSpec_of (m_algorithm s))"
    if ok: "\<not> grect_hasNans (m_aoiGroundRect s)" "\<not> irect_hasNans (m_aoiViewRect s)" "m_sensor s = ''ls8''"
  proof
    show "\<not> isl (initProcessingChain s)"
      using built [OF ok] by (metis sum.disc(2))
    show "m_procChain (projr (initProcessingChain s)) ! length (m_procChain s) =
              EquationCombiner (take (requiredBandCount (m_algorithm s)) (m_imgLayers s)) OSSIM_FLOAT
                (equationSpec_of (m_algorithm s))"
      by (simp only: initProcessingChain_shape [OF built [OF ok]] nth_append_length append_Cons append_Nil)
  qed
  then show ?thesis
    using initLandsat8_enough [OF le] le by simp
qed

text \<open>
  NDWI with four layers: the combiner reads the layers 0 and 1.
\<close>

theorem C10_extra_inputs_ignored_witness:
  "requiredBandCount (m_algorithm example_util) < length (m_imgLayers example_util)
   \<and> \<not> isl (initProcessingChain example_util)
   \<and> m_procChain (projr (initProcessingChain example_util)) ! 0 =
       EquationCombiner [0, 1] OSSIM_FLOAT ''in[0]/(in[0]+in[1])''"
proof -
  have more: "requiredBandCount (m_algorithm example_util) < length (m_imgLayers example_util)"
    by (simp add: example_defs requiredBandCount_def)
  show ?thesis
    using C10_extra_inputs_ignored [OF more] more
    by (simp add: example_defs requiredBandCount_def grect_hasNans_def irect_hasNans_def
          OSSIM_INT_NAN_def equationSpec_of_def)
qed

lemma example_edge_built: "initProcessingChain example_edge = Inr (projr (initProcessingChain example_edge))"
  by (rule initProcessingChain_succeeds)
     (simp_all add: example_edge_def example_defs grect_hasNans_def irect_hasNans_def OSSIM_INT_NAN_def
        requiredBandCount_def)

section \<open>Edge detection\<close>

text \<open>
  Claim C4 says that in edge-detect mode the chain never composes the edge filter with the
  three-way classification. The default configuration with edge detection switched on
  builds the chain combiner, threshold filter, Gaussian filter, edge filter: the edge
  filter works on the classified and smoothed raster.
\<close>

theorem C4_counterexample:
  "m_doEdgeDetect example_edge
   \<and> \<not> isl (initProcessingChain example_edge)
   \<and> m_procChain (projr (initProcessingChain example_edge)) =
       [EquationCombiner [0, 1] OSSIM_FLOAT ''in[0]/(in[0]+in[1])'',
        BandLutFilter (remapper_kwl example_edge),
        ImageGaussianFilter (1 / 5),
        EdgeFilter ''roberts'']
   \<and> kw_entries (remapper_kwl example_edge) =
       [(0, 0), (54 / 100, 0), (54 / 100 + FLT_EPSILON, 128), (56 / 100, 128),
        (56 / 100 + FLT_EPSILON, 255), (1, 255)]"
proof -
  have "\<not> isl (initProcessingChain example_edge)"
    using example_edge_built by (metis sum.disc(2))
  moreover have "m_procChain (projr (initProcessingChain example_edge)) =
       [EquationCombiner [0, 1] OSSIM_FLOAT ''in[0]/(in[0]+in[1])'',
        BandLutFilter (remapper_kwl example_edge),
        ImageGaussianFilter (1 / 5),
        EdgeFilter ''roberts'']"
    using initProcessingChain_shape [OF example_edge_built]
    by (simp add: example_edge_def example_defs requiredBandCount_def equationSpec_of_def)
  moreover have "kw_entries (remapper_kwl example_edge) =
       [(0, 0), (54 / 100, 0), (54 / 100 + FLT_EPSILON, 128), (56 / 100, 128),
        (56 / 100 + FLT_EPSILON, 255), (1, 255)]"
    by (simp add: remapper_kwl_def example_edge_def example_defs)
  ultimately show ?thesis
    by (simp add: example_edge_def)
qed

text \<open>
  Claim C4, amended. In edge-detect mode the edge filter is the last stage of the chain. It
  comes after the combiner, after the threshold filter unless thresholding is skipped, and
  after the Gaussian filter if the smoothing is positive: it takes the place of the
  classification only when thresholding is skipped.
\<close>

theorem C4_edge_filter_last:
  assumes "initProcessingChain s = Inr s'" and "m_doEdgeDetect s"
  shows "m_procChain s' = m_procChain s @
           [EquationCombiner (take (requiredBandCount (m_algorithm s)) (m_imgLayers s)) OSSIM_FLOAT
              (equationSpec_of (m_algorithm s))] @
           (if m_skipThreshold s then [] else [BandLutFilter (remapper_kwl s)]) @
           (if 0 < m_smoothing s then [ImageGaussianFilter (m_smoothing s)] else []) @
           [EdgeFilter ''roberts'']"
  using initProcessingChain_shape [OF assms(1)] assms(2) by simp

text \<open>
  The default configuration with edge detection switched on.
\<close>

theorem C4_edge_filter_last_witness:
  "initProcessingChain example_edge = Inr (projr (initProcessingChain example_edge))
   \<and> m_doEdgeDetect example_edge
   \<and> last (m_procChain (projr (initProcessingChain example_edge))) = EdgeFilter ''roberts''
   \<and> BandLutFilter (remapper_kwl example_edge) \<in> set (m_procChain (projr (initProcessingChain example_edge)))"
proof -
  have edge: "m_doEdgeDetect example_edge"
    by (simp add: example_edge_def)
  show ?thesis
    using C4_edge_filter_last [OF example_edge_built edge] example_edge_built edge
    by (simp add: example_edge_def example_defs)
qed

section \<open>The returned status\<close>

text \<open>
  Claim C3 says that without the vectorization plugin, outside edge-detect mode, execute
  returns success. Here the base class reports success, the plugin is missing, and
  execute returns false with a warning.
\<close>

theorem C3_counterexample:
  "\<not> m_doEdgeDetect example_util
   \<and> createUtility example_lib ''potrace'' = None
   \<and> chipProc_execute example_lib example_util = Inr (True, example_util)
   \<and> execute example_lib example_util =
       Inr (False,
            [ossimNotifyLevel_WARN
               (''ossimShorelineUtil:379  Need the ossim-potrace plugin to perform '' @
                ''vectorization. Only the thresholded image is available at <shoreline.tif>.'')])"
  by (simp add: execute_def example_lib_def example_defs)

text \<open>
  Claim C3, amended. Outside edge-detect mode and without the plugin, execute sends one
  warning that names the raster product the base class has written, and returns false,
  whatever status the base class returned.
\<close>

theorem C3_plugin_absent_returns_false:
  assumes "chipProc_execute lib s = Inr (status, s1)"
    and "\<not> m_doEdgeDetect s1"
    and "createUtility lib ''potrace'' = None"
  shows "execute lib s =
           Inr (False,
                [ossimNotifyLevel_WARN
                   (''ossimShorelineUtil:379  Need the ossim-potrace plugin to perform '' @
                    ''vectorization. Only the thresholded image is available at <'' @
                    m_productFilename s1 @ ''>.'')])"
  using assms by (simp add: execute_def)

text \<open>
  The default object with a base class that reports success and an empty registry.
\<close>

theorem C3_plugin_absent_returns_false_witness:
  "chipProc_execute example_lib example_util = Inr (True, example_util)
   \<and> \<not> m_doEdgeDetect example_util
   \<and> createUtility example_lib ''potrace'' = None
   \<and> fst (projr (execute example_lib example_util)) = False"
proof -
  have base: "chipProc_execute example_lib example_util = Inr (True, example_util)"
    and edge: "\<not> m_doEdgeDetect example_util"
    and plugin: "createUtility example_lib ''potrace'' = None"
    by (simp_all add: example_lib_def example_defs)
  show ?thesis
    using C3_plugin_absent_returns_false [OF base edge plugin] base edge plugin by simp
qed

text \<open>
  Claim C9. Outside edge-detect mode and with the plugin available, execute returns the
  status of the base class and no warning, whatever the plugin's \<open>execute()\<close> returns.
\<close>

theorem C9_plugin_status_ignored:
  assumes "chipProc_execute lib s = Inr (status, s1)"
    and "\<not> m_doEdgeDetect s1"
    and "createUtility lib ''potrace'' = Some potrace"
  shows "execute lib s = Inr (status, [])"
  using assms by (simp add: execute_def)

text \<open>
  The base class reports success, the plugin reports failure, execute returns true.
\<close>

theorem C9_plugin_status_ignored_witness:
  "chipProc_execute (example_lib_potrace False) example_util = Inr (True, example_util)
   \<and> \<not> m_doEdgeDetect example_util
   \<and> createUtility (example_lib_potrace False) ''potrace'' = Some (\<lambda>kwl. False)
   \<and> execute (example_lib_potrace False) example_util = Inr (True, [])"
proof -
  have base: "chipProc_execute (example_lib_potrace False) example_util = Inr (True, example_util)"
    and edge: "\<not> m_doEdgeDetect example_util"
    and plugin: "createUtility (example_lib_potrace False) ''potrace'' = Some (\<lambda>kwl. False)"
    by (simp_all add: example_lib_potrace_def example_lib_def example_defs)
  show ?thesis
    using C9_plugin_status_ignored [OF base edge plugin] base edge plugin by simp
qed

section \<open>Helper lemmas: the examples\<close>

text \<open>
  The keyword names and the numbers of the example keyword list.
\<close>

lemmas kw_defs = COLOR_CODING_KW_def SMOOTHING_KW_def THRESHOLD_KW_def TOLERANCE_KW_def
  ALGORITHM_KW_def DO_EDGE_DETECT_KW_def DUMMY_OUTPUT_FILENAME_def TEMP_RASTER_PRODUCT_FILENAME_def

lemma decimal_examples: "decimal ''1.5'' = Some (3 / 2)" "decimal ''0.1'' = Some (1 / 10)"
  by (simp_all add: decimal_def is_digit_def digits_val_def digit_val_def)

lemma example_initialize:
  "initialize example_lib (Other example_kwl) example_util =
     Inr (example_util\<lparr>m_kwl := example_kwl(''output_file'' \<mapsto> ''shore.tif''),
                       m_productFilename := ''shore.tif'', m_vectorFilename := ''shore.json'',
                       m_threshold := 3 / 2, m_tolerance := - (1 / 10)\<rparr>)"
  by (simp add: initialize_def init_algorithm_def init_color_coding_def init_settings_def
        init_filenames_def findKey_def kw_defs example_lib_def example_kwl_def example_defs
        example_toDouble_def decimal_examples Let_def)

section \<open>Reading the threshold and the tolerance\<close>

text \<open>
  Claim C5 says that a threshold outside [0, 1] or a negative tolerance fails with
  InvalidConfiguration when the configuration is loaded. With the keywords threshold 1.5
  and tolerance -0.1, a base class that accepts its keywords and two or more layers,
  \<open>initialize\<close> returns, the object holds the threshold 1.5 and the tolerance -0.1, and
  the chain is then built from them.
\<close>

theorem C5_counterexample:
  "\<not> isl (initialize example_lib (Other example_kwl) example_util)
   \<and> m_threshold (projr (initialize example_lib (Other example_kwl) example_util)) = 3 / 2
   \<and> m_tolerance (projr (initialize example_lib (Other example_kwl) example_util)) = - (1 / 10)
   \<and> \<not> isl (initProcessingChain (projr (initialize example_lib (Other example_kwl) example_util)))"
proof -
  let ?s = "example_util\<lparr>m_kwl := example_kwl(''output_file'' \<mapsto> ''shore.tif''),
                       m_productFilename := ''shore.tif'', m_vectorFilename := ''shore.json'',
                       m_threshold := 3 / 2, m_tolerance := - (1 / 10)\<rparr>"
  have "initProcessingChain ?s = Inr (projr (initProcessingChain ?s))"
    by (rule initProcessingChain_succeeds)
       (simp_all add: example_defs grect_hasNans_def irect_hasNans_def OSSIM_INT_NAN_def
          requiredBandCount_def)
  then have "\<not> isl (initProcessingChain ?s)"
    by (metis sum.disc(2))
  then show ?thesis
    by (simp add: example_initialize)
qed

text \<open>
  Claim C5, amended. \<open>initialize\<close> checks no range. It throws for an algorithm that is
  neither ndwi nor awei and for a colour coding that has not three values; otherwise it
  reaches the \<open>initialize\<close> of the base class with the threshold and the tolerance that
  the keywords give, converted and stored as they are (the threshold X sets the skip flag
  instead).
\<close>

theorem C5_no_range_check:
  fixes lib :: ossimLib and kwl :: kwlRef and s :: ossimShorelineUtil
  defines "k \<equiv> (case kwl of Member \<Rightarrow> m_kwl s | Other k' \<Rightarrow> k')"
  defines "algorithm_ok \<equiv> findKey k ALGORITHM_KW \<in> {'''', ''ndwi'', ''awei''}"
  defines "color_coding_ok \<equiv> findKey k COLOR_CODING_KW = ''''
                               \<or> length (split lib '' '' (findKey k COLOR_CODING_KW)) = 3"
  shows "(\<not> algorithm_ok \<longrightarrow> initialize lib kwl s = Inl (InvalidConfiguration ALGORITHM_KW))
       \<and> (algorithm_ok \<and> \<not> color_coding_ok \<longrightarrow>
            initialize lib kwl s = Inl (InvalidConfiguration COLOR_CODING_KW))
       \<and> (algorithm_ok \<and> color_coding_ok \<longrightarrow>
            (\<exists>k' s'. initialize lib kwl s = chipProc_initialize lib k' s'
               \<and> m_threshold s' =
                   (if findKey k THRESHOLD_KW = '''' \<or> findKey k THRESHOLD_KW = ''X'' then m_threshold s
                    else toDouble lib (findKey k THRESHOLD_KW))
               \<and> m_skipThreshold s' = (m_skipThreshold s \<or> findKey k THRESHOLD_KW = ''X'')
               \<and> m_tolerance s' =
                   (if findKey k TOLERANCE_KW = '''' then m_tolerance s
                    else toDouble lib (findKey k TOLERANCE_KW))))"
proof -
  define s0 where "s0 = (case kwl of Member \<Rightarrow> s | Other k' \<Rightarrow> s\<lparr>m_kwl := k'\<rparr>)"
  have k0: "m_kwl s0 = k"
    by (cases kwl) (simp_all add: s0_def k_def)
  have same: "m_threshold s0 = m_threshold s" "m_tolerance s0 = m_tolerance s"
    "m_skipThreshold s0 = m_skipThreshold s"
    by (cases kwl; simp add: s0_def)+
  have init: "initialize lib kwl s =
     (case init_algorithm s0 of
        Inl e \<Rightarrow> Inl e
      | Inr s1 \<Rightarrow>
         (case init_color_coding lib s1 of
            Inl e \<Rightarrow> Inl e
          | Inr s2 \<Rightarrow>
              chipProc_initialize lib (case kwl of Member \<Rightarrow> m_kwl (init_filenames lib (init_settings lib s2)) | Other k \<Rightarrow> k)
                (init_filenames lib (init_settings lib s2))))"
    by (simp add: initialize_def s0_def Let_def split: sum.splits)
  have alg_bad: "init_algorithm s0 = Inl (InvalidConfiguration ALGORITHM_KW)" if "\<not> algorithm_ok"
    using that by (simp add: init_algorithm_def k0 algorithm_ok_def Let_def)
  have alg_ok: "\<exists>a. init_algorithm s0 = Inr (s0\<lparr>m_algorithm := a\<rparr>)" if "algorithm_ok"
  proof (cases "findKey k ALGORITHM_KW = ''''")
    case True
    then have "init_algorithm s0 = Inr (s0\<lparr>m_algorithm := m_algorithm s0\<rparr>)"
      by (simp add: init_algorithm_def k0 Let_def)
    then show ?thesis ..
  next
    case False
    with that show ?thesis
      by (auto simp: init_algorithm_def k0 algorithm_ok_def Let_def)
  qed
  have col_bad: "init_color_coding lib (s0\<lparr>m_algorithm := a\<rparr>) = Inl (InvalidConfiguration COLOR_CODING_KW)"
    if "\<not> color_coding_ok" for a
    using that by (simp add: init_color_coding_def k0 color_coding_ok_def Let_def)
  have col_ok: "\<exists>s2. init_color_coding lib (s0\<lparr>m_algorithm := a\<rparr>) = Inr s2 \<and> m_kwl s2 = k
                  \<and> m_threshold s2 = m_threshold s \<and> m_tolerance s2 = m_tolerance s
                  \<and> m_skipThreshold s2 = m_skipThreshold s"
    if "color_coding_ok" for a
    using that by (auto simp: init_color_coding_def k0 same color_coding_ok_def Let_def)
  have settings: "m_threshold (init_settings lib s2) =
                   (if findKey k THRESHOLD_KW = '''' \<or> findKey k THRESHOLD_KW = ''X'' then m_threshold s2
                    else toDouble lib (findKey k THRESHOLD_KW))
               \<and> m_skipThreshold (init_settings lib s2) = (m_skipThreshold s2 \<or> findKey k THRESHOLD_KW = ''X'')
               \<and> m_tolerance (init_settings lib s2) =
                   (if findKey k TOLERANCE_KW = '''' then m_tolerance s2
                    else toDouble lib (findKey k TOLERANCE_KW))"
    if "m_kwl s2 = k" for s2
    using that by (auto simp: init_settings_def Let_def split: option.splits)
  have names: "m_threshold (init_filenames lib t) = m_threshold t"
    "m_tolerance (init_filenames lib t) = m_tolerance t"
    "m_skipThreshold (init_filenames lib t) = m_skipThreshold t" for t
    by (simp_all add: init_filenames_def Let_def)
  have one: "\<not> algorithm_ok \<longrightarrow> initialize lib kwl s = Inl (InvalidConfiguration ALGORITHM_KW)"
    using alg_bad by (simp add: init)
  have two: "algorithm_ok \<and> \<not> color_coding_ok \<longrightarrow>
            initialize lib kwl s = Inl (InvalidConfiguration COLOR_CODING_KW)"
    using alg_ok col_bad by (auto simp: init)
  have three: "\<exists>k' s'. initialize lib kwl s = chipProc_initialize lib k' s'
               \<and> m_threshold s' =
                   (if findKey k THRESHOLD_KW = '''' \<or> findKey k THRESHOLD_KW = ''X'' then m_threshold s
                    else toDouble lib (findKey k THRESHOLD_KW))
               \<and> m_skipThreshold s' = (m_skipThreshold s \<or> findKey k THRESHOLD_KW = ''X'')
               \<and> m_tolerance s' =
                   (if findKey k TOLERANCE_KW = '''' then m_tolerance s
                    else toDouble lib (findKey k TOLERANCE_KW))"
    if ok: "algorithm_ok" "color_coding_ok"
  proof -
    from alg_ok [OF ok(1)] obtain a where a: "init_algorithm s0 = Inr (s0\<lparr>m_algorithm := a\<rparr>)" ..
    from col_ok [OF ok(2), of a] obtain s2 where s2: "init_color_coding lib (s0\<lparr>m_algorithm := a\<rparr>) = Inr s2"
      "m_kwl s2 = k" "m_threshold s2 = m_threshold s" "m_tolerance s2 = m_tolerance s"
      "m_skipThreshold s2 = m_skipThreshold s"
      by blast
    have "initialize lib kwl s =
            chipProc_initialize lib (case kwl of Member \<Rightarrow> m_kwl (init_filenames lib (init_settings lib s2)) | Other k \<Rightarrow> k)
                (init_filenames lib (init_settings lib s2))"
      by (simp add: init a s2(1))
    moreover note settings [OF s2(2)] names [of "init_settings lib s2"] s2(3-5)
    ultimately show ?thesis
      by (intro exI [of _ "case kwl of Member \<Rightarrow> m_kwl (init_filenames lib (init_settings lib s2)) | Other k \<Rightarrow> k"]
             exI [of _ "init_filenames lib (init_settings lib s2)"]) simp
  qed
  show ?thesis
    using one two three by blast
qed

text \<open>
  An unknown algorithm, a colour coding of two values, and the threshold 1.5 with the tolerance -0.1.
\<close>

theorem C5_no_range_check_witness:
  "initialize example_lib (Other [''algorithm'' \<mapsto> ''mndwi'']) example_util =
     Inl (InvalidConfiguration ''algorithm'')
   \<and> initialize example_lib (Other [''color_coding'' \<mapsto> ''255 0'']) example_util =
     Inl (InvalidConfiguration ''color_coding'')
   \<and> (\<exists>k' s'. initialize example_lib (Other example_kwl) example_util =
                  chipProc_initialize example_lib k' s'
              \<and> m_threshold s' = 3 / 2 \<and> m_tolerance s' = - (1 / 10))"
proof -
  have split: "split example_lib '' '' ''255 0'' = [''255'', ''0'']"
    by (simp add: example_lib_def)
  have convert: "toDouble example_lib ''1.5'' = 3 / 2" "toDouble example_lib ''-0.1'' = - (1 / 10)"
    by (simp_all add: example_lib_def example_toDouble_def decimal_examples)
  have algorithm: "initialize example_lib (Other [''algorithm'' \<mapsto> ''mndwi'']) example_util =
                     Inl (InvalidConfiguration ''algorithm'')"
    using C5_no_range_check [where lib = example_lib and kwl = "Other [''algorithm'' \<mapsto> ''mndwi'']"
        and s = example_util]
    by (simp add: findKey_def kw_defs)
  have color_coding: "initialize example_lib (Other [''color_coding'' \<mapsto> ''255 0'']) example_util =
                     Inl (InvalidConfiguration ''color_coding'')"
    using C5_no_range_check [where lib = example_lib and kwl = "Other [''color_coding'' \<mapsto> ''255 0'']"
        and s = example_util]
    by (simp add: findKey_def kw_defs split)
  have range: "\<exists>k' s'. initialize example_lib (Other example_kwl) example_util =
                  chipProc_initialize example_lib k' s'
              \<and> m_threshold s' = 3 / 2 \<and> m_tolerance s' = - (1 / 10)"
    using C5_no_range_check [where lib = example_lib and kwl = "Other example_kwl" and s = example_util]
    by (simp add: findKey_def kw_defs example_kwl_def convert) blast
  show ?thesis
    using algorithm color_coding range by (intro conjI)
qed

end
